theory Spec2Isabelle
  imports Main "HOL-Library.Multiset"
begin

section \<open>Batch video processing: the per-file runner and the batch ledger\<close>

text \<open>
  A model of \<^verbatim>\<open>src/batch_process.py\<close>. The remote service, the clock, the random
  identifiers and the other writers of the output folder are the environment: their
  answers are arguments of the model. Everything the runner does with an answer is
  computed by the definitions below, which follow the source statement by statement.
\<close>

subsection \<open>Constants of the module\<close>


definition RETRY_LIMIT :: int where
  "RETRY_LIMIT = 1"

definition max_wait :: int where
  "max_wait = 3600"

definition wait_interval :: int where
  "wait_interval = 10"

subsection \<open>Data\<close>

text \<open>
  The result dictionary of one file. \<open>retry_count = None\<close> stands for a dictionary
  without that key (the record synthesised for an escaped exception has none);
  \<open>request_id = None\<close> is Python's \<^verbatim>\<open>None\<close> (or the key missing, in the synthesised
  record).
\<close>

record outcome =
  filename :: string
  status :: string
  request_id :: "string option"
  error :: "string option"
  retry_count :: "int option"
  timestamp :: int

text \<open>\<^verbatim>\<open>self.log_data\<close>.\<close>

record ledger =
  start_time :: int
  end_time :: "int option"
  total_videos :: int
  successful :: int
  failed :: int
  skipped :: int
  results :: "outcome list"

text \<open>The exceptions raised inside the \<^verbatim>\<open>try\<close> block of \<^verbatim>\<open>process_single_video\<close>.\<close>

datatype exn =
    ApiError int string
  | NoRequestId
  | NoUploadUrls
  | UploadFailed
  | StatusCheckFailed int
  | NoDownloadUrl
  | DownloadFailed
  | JobFailed string
  | Timeout int
  | TransportError string
  | OSError string

text \<open>
  What the environment answers to one request: the transport raises, or there is a
  response with an HTTP status code and a decoded body.
\<close>

datatype 'a reply = Raises string | Response int 'a

record submit_body =
  body_repr :: string
  requestId :: "string option"
  uploadUrls :: "string list"

text \<open>
  The body of a status response: \<open>job_status\<close> is \<^verbatim>\<open>.get('status')\<close>, \<open>progress\<close> is
  \<^verbatim>\<open>.get('progress')\<close>, \<open>download_url\<close> is \<^verbatim>\<open>.get('download', {}).get('url')\<close> and
  \<open>job_error\<close> is \<^verbatim>\<open>.get('error')\<close>.
\<close>

record status_body =
  job_status :: "string option"
  progress :: "int option"
  download_url :: "string option"
  job_error :: "string option"

text \<open>
  The environment of one attempt on one file. \<open>status_at t\<close> is the answer to the status
  check made after \<open>t\<close> time units of waiting; \<open>uuid4\<close> is the identifier drawn by this
  attempt; \<open>backoff_writes\<close> are the entries that other tasks or processes add to the
  output folder while the runner sleeps before its next attempt.
\<close>

record attempt_env =
  submit_reply :: "submit_body reply"
  upload_reply :: "unit reply"
  status_at :: "int \<Rightarrow> status_body reply"
  download_reply :: "unit reply"
  rename_error :: "string option"
  uuid4 :: string
  backoff_writes :: "string list"

text \<open>One environment per attempt, indexed by the attempt's \<^verbatim>\<open>retry_count\<close>.\<close>

type_synonym file_env = "int \<Rightarrow> attempt_env"

text \<open>What the runner does to the outside, in order.\<close>

datatype event =
    Sleep int
  | Submit
  | Upload string string
  | Poll string
  | Download string string
  | Renamed string string

text \<open>The lines printed, without their decoration.\<close>

datatype line =
    SkippedLine string
  | ProcessingLine string
  | JobCreatedLine string
  | UploadingLine
  | UploadCompleteLine
  | DownloadingLine
  | SuccessLine string
  | FullResponseLine status_body
  | ProgressLine int "string option"
  | StatusLine "string option"
  | ErrorLine string string
  | RetryingLine int int
  | NoVideosLine
  | FoundLine int
  | MaxConcurrentLine int
  | RetryLimitLine int
  | SeparatorLine
  | LogSavedLine
  | SummaryLine int int int int
  | FailedVideosHeader
  | FailedVideoLine string "string option"

text \<open>
  The state the program works on: the names present in the output folder, the ledger,
  a clock that advances with every sleep, the trace of outside operations, the console,
  and every content written to the log file, in order.
\<close>

record world =
  out_files :: "string set"
  log_data :: ledger
  clock :: int
  trace :: "event list"
  console :: "line list"
  saved_logs :: "ledger list"

subsection \<open>Messages\<close>

text \<open>Decimal notation, for the numbers that appear in error messages.\<close>

definition digit_char :: "nat \<Rightarrow> char" where
  "digit_char d = ''0123456789'' ! d"

function show_nat :: "nat \<Rightarrow> string" where
  "show_nat n =
     (if n < 10 then [digit_char n]
      else show_nat (n div 10) @ [digit_char (n mod 10)])"
  by pat_completeness auto
termination
  by (relation "measure id") auto

declare show_nat.simps [simp del]

definition show_int :: "int \<Rightarrow> string" where
  "show_int i = (if i < 0 then ''-'' @ show_nat (nat (- i)) else show_nat (nat i))"

text \<open>\<^verbatim>\<open>str(e)\<close>.\<close>

fun error_text :: "exn \<Rightarrow> string" where
  "error_text (ApiError c b) = ''API error: '' @ show_int c @ '' - '' @ b"
| "error_text NoRequestId = ''No request ID received from API''"
| "error_text NoUploadUrls = ''No upload URLs received from API''"
| "error_text UploadFailed = ''Video upload failed''"
| "error_text (StatusCheckFailed c) = ''Status check failed: '' @ show_int c"
| "error_text NoDownloadUrl = ''No download URL in completed response''"
| "error_text DownloadFailed = ''Download failed''"
| "error_text (JobFailed m) = ''Job failed: '' @ m"
| "error_text (Timeout t) = ''Timeout after '' @ show_int t @ ''s''"
| "error_text (TransportError m) = m"
| "error_text (OSError m) = m"

subsection \<open>Primitive effects\<close>

definition print_line :: "line \<Rightarrow> world \<Rightarrow> world" where
  "print_line l w = w\<lparr>console := console w @ [l]\<rparr>"

definition emit :: "event \<Rightarrow> world \<Rightarrow> world" where
  "emit e w = w\<lparr>trace := trace w @ [e]\<rparr>"

text \<open>\<^verbatim>\<open>await asyncio.sleep(n)\<close>.\<close>

definition sleep :: "int \<Rightarrow> world \<Rightarrow> world" where
  "sleep n w = emit (Sleep n) (w\<lparr>clock := clock w + n\<rparr>)"

definition others_write :: "string list \<Rightarrow> world \<Rightarrow> world" where
  "others_write names w = w\<lparr>out_files := out_files w \<union> set names\<rparr>"

text \<open>\<^verbatim>\<open>is_already_processed\<close>: the output folder has an entry with the input's base name.\<close>

definition is_already_processed :: "string \<Rightarrow> world \<Rightarrow> bool" where
  "is_already_processed name w \<longleftrightarrow> name \<in> out_files w"

subsection \<open>The four remote operations\<close>

text \<open>
  \<^verbatim>\<open>submit_video_job\<close> (lines 95 to 129), \<^verbatim>\<open>upload_video\<close> (131 to 137),
  \<^verbatim>\<open>check_job_status\<close> (139 to 149) and \<^verbatim>\<open>download_result\<close> (151 to 159). Each one
  records its request in the trace and then decides on the environment's answer as the
  source does on the response. A download answered with 200 leaves the temporary file in
  the output folder.
\<close>

definition submit_video_job :: "attempt_env \<Rightarrow> world \<Rightarrow> (exn + submit_body) \<times> world" where
  "submit_video_job env w =
     (let w1 = emit Submit w in
      case submit_reply env of
        Raises m \<Rightarrow> (Inl (TransportError m), w1)
      | Response code response_data \<Rightarrow>
          if code \<noteq> 200 then (Inl (ApiError code (body_repr response_data)), w1)
          else (Inr response_data, w1))"

definition upload_video :: "attempt_env \<Rightarrow> string \<Rightarrow> string \<Rightarrow> world \<Rightarrow> (exn + bool) \<times> world" where
  "upload_video env name upload_url w =
     (let w1 = emit (Upload name upload_url) w in
      case upload_reply env of
        Raises m \<Rightarrow> (Inl (TransportError m), w1)
      | Response code _ \<Rightarrow> (Inr (code \<in> {200, 201, 204}), w1))"

definition check_job_status ::
  "attempt_env \<Rightarrow> string \<Rightarrow> int \<Rightarrow> world \<Rightarrow> (exn + status_body) \<times> world" where
  "check_job_status env rid elapsed w =
     (let w1 = emit (Poll rid) w in
      case status_at env elapsed of
        Raises m \<Rightarrow> (Inl (TransportError m), w1)
      | Response code body \<Rightarrow>
          if code \<noteq> 200 then (Inl (StatusCheckFailed code), w1)
          else (Inr body, w1))"

definition download_result ::
  "attempt_env \<Rightarrow> string \<Rightarrow> string \<Rightarrow> world \<Rightarrow> (exn + bool) \<times> world" where
  "download_result env url temp_file w =
     (let w1 = emit (Download url temp_file) w in
      case download_reply env of
        Raises m \<Rightarrow> (Inl (TransportError m), w1)
      | Response code _ \<Rightarrow>
          if code \<noteq> 200 then (Inr False, w1)
          else (Inr True, w1\<lparr>out_files := insert temp_file (out_files w1)\<rparr>))"

text \<open>\<^verbatim>\<open>temp_file.rename(final_file)\<close>: it raises, or the entry changes its name.\<close>

definition rename_file ::
  "attempt_env \<Rightarrow> string \<Rightarrow> string \<Rightarrow> world \<Rightarrow> (exn + unit) \<times> world" where
  "rename_file env temp_file final_file w =
     (case rename_error env of
        Some m \<Rightarrow> (Inl (OSError m), w)
      | None \<Rightarrow>
          (Inr (),
           emit (Renamed temp_file final_file)
             (w\<lparr>out_files := insert final_file (out_files w - {temp_file})\<rparr>)))"

subsection \<open>The runner\<close>

text \<open>
  The body of the \<^verbatim>\<open>try\<close> block returns the exception raised, if any, together with
  the dictionary \<^verbatim>\<open>result\<close> as it stands at that point and the new state: the handler
  reads \<^verbatim>\<open>result\<close> after the block has changed it.
\<close>

definition add_successful :: "world \<Rightarrow> world" where
  "add_successful w = w\<lparr>log_data := (log_data w)\<lparr>successful := successful (log_data w) + 1\<rparr>\<rparr>"

definition add_failed :: "world \<Rightarrow> world" where
  "add_failed w = w\<lparr>log_data := (log_data w)\<lparr>failed := failed (log_data w) + 1\<rparr>\<rparr>"

definition add_skipped :: "world \<Rightarrow> world" where
  "add_skipped w = w\<lparr>log_data := (log_data w)\<lparr>skipped := skipped (log_data w) + 1\<rparr>\<rparr>"

text \<open>The branch \<^verbatim>\<open>status == 'complete'\<close> of the polling loop, lines 211 to 228.\<close>

definition complete_branch ::
  "attempt_env \<Rightarrow> string \<Rightarrow> status_body \<Rightarrow> outcome \<Rightarrow> world \<Rightarrow> exn option \<times> outcome \<times> world" where
  "complete_branch env name status_response result w =
     (case download_url status_response of
        None \<Rightarrow> (Some NoDownloadUrl, result, w)
      | Some url \<Rightarrow>
          if url = [] then (Some NoDownloadUrl, result, w)
          else
            (let temp_file = uuid4 env @ ''.mp4'';
                 final_file = name;
                 w1 = print_line DownloadingLine w in
             case download_result env url temp_file w1 of
               (Inl e, w2) \<Rightarrow> (Some e, result, w2)
             | (Inr True, w2) \<Rightarrow>
                 (case rename_file env temp_file final_file w2 of
                    (Inl e, w3) \<Rightarrow> (Some e, result, w3)
                  | (Inr _, w3) \<Rightarrow>
                      (None, result\<lparr>status := ''success''\<rparr>,
                       print_line (SuccessLine name) (add_successful w3)))
             | (Inr False, w2) \<Rightarrow> (Some DownloadFailed, result, w2)))"

definition in_progress_statuses :: "string list" where
  "in_progress_statuses =
     [''requested'', ''accepted'', ''initializing'', ''preprocessing'', ''processing'',
      ''postprocessing'']"

text \<open>
  The \<^verbatim>\<open>while\<close> loop of lines 204 to 241, with the \<^verbatim>\<open>raise\<close> that follows it. An
  unrecognised status, like a status in progress, goes round again.
\<close>

function poll_loop ::
  "attempt_env \<Rightarrow> string \<Rightarrow> string \<Rightarrow> outcome \<Rightarrow> int \<Rightarrow> world \<Rightarrow> exn option \<times> outcome \<times> world" where
  "poll_loop env name rid result elapsed w =
     (if elapsed < max_wait then
        (let w1 = sleep wait_interval w;
             elapsed1 = elapsed + wait_interval in
         case check_job_status env rid elapsed1 w1 of
           (Inl e, w2) \<Rightarrow> (Some e, result, w2)
         | (Inr status_response, w2) \<Rightarrow>
             if job_status status_response = Some ''complete'' then
               complete_branch env name status_response result w2
             else if job_status status_response = Some ''failed'' then
               (Some (JobFailed (case job_error status_response of
                                   None \<Rightarrow> ''Unknown error'' | Some m \<Rightarrow> m)),
                result, print_line (FullResponseLine status_response) w2)
             else if job_status status_response \<in> Some ` set in_progress_statuses then
               poll_loop env name rid result elapsed1
                 (print_line (ProgressLine (case progress status_response of
                                              None \<Rightarrow> 0 | Some p \<Rightarrow> p)
                                (job_status status_response)) w2)
             else
               poll_loop env name rid result elapsed1
                 (print_line (StatusLine (job_status status_response)) w2))
      else (Some (Timeout max_wait), result, w))"
  by pat_completeness auto
termination
  by (relation "measure (\<lambda>(env, name, rid, result, elapsed, w). nat (max_wait - elapsed))")
     (auto simp: wait_interval_def)

declare poll_loop.simps [simp del]

text \<open>Lines 172 to 241: the \<^verbatim>\<open>try\<close> block.\<close>

definition try_block ::
  "attempt_env \<Rightarrow> string \<Rightarrow> outcome \<Rightarrow> world \<Rightarrow> exn option \<times> outcome \<times> world" where
  "try_block env name result w =
     (if is_already_processed name w then
        (None, result\<lparr>status := ''skipped'', error := Some ''Already processed''\<rparr>,
         print_line (SkippedLine name) (add_skipped w))
      else
        (let w1 = print_line (ProcessingLine name) w in
         case submit_video_job env w1 of
           (Inl e, w2) \<Rightarrow> (Some e, result, w2)
         | (Inr job_response, w2) \<Rightarrow>
             (let rid = requestId job_response;
                  upload_urls = uploadUrls job_response;
                  result1 = result\<lparr>request_id := rid\<rparr> in
              case rid of
                None \<Rightarrow> (Some NoRequestId, result1, w2)
              | Some req_id \<Rightarrow>
                  if req_id = [] then (Some NoRequestId, result1, w2)
                  else
                    (case upload_urls of
                       [] \<Rightarrow> (Some NoUploadUrls, result1, w2)
                     | upload_url # _ \<Rightarrow>
                         (let w3 = print_line UploadingLine
                                     (print_line (JobCreatedLine req_id) w2) in
                          case upload_video env name upload_url w3 of
                            (Inl e, w4) \<Rightarrow> (Some e, result1, w4)
                          | (Inr False, w4) \<Rightarrow> (Some UploadFailed, result1, w4)
                          | (Inr True, w4) \<Rightarrow>
                              poll_loop env name req_id result1 0
                                (print_line UploadCompleteLine w4))))))"

text \<open>
  \<^verbatim>\<open>process_single_video\<close>: the dictionary \<^verbatim>\<open>result\<close> of lines 162 to 169, the
  \<^verbatim>\<open>try\<close> block and its handler. The recursive call is the retry; \<open>rc\<close> is the
  parameter \<^verbatim>\<open>retry_count\<close>.
\<close>

definition new_result :: "string \<Rightarrow> int \<Rightarrow> world \<Rightarrow> outcome" where
  "new_result name rc w =
     \<lparr>filename = name, status = ''unknown'', request_id = None, error = None,
      retry_count = Some rc, timestamp = clock w\<rparr>"

function process_single_video :: "file_env \<Rightarrow> string \<Rightarrow> int \<Rightarrow> world \<Rightarrow> outcome \<times> world" where
  "process_single_video env name rc w =
     (let result = new_result name rc w in
      case try_block (env rc) name result w of
        (None, result1, w1) \<Rightarrow> (result1, w1)
      | (Some e, result1, w1) \<Rightarrow>
          (let error_msg = error_text e;
               w2 = print_line (ErrorLine name error_msg) w1 in
           if rc < RETRY_LIMIT then
             process_single_video env name (rc + 1)
               (others_write (backoff_writes (env rc))
                  (sleep 5 (print_line (RetryingLine (rc + 1) RETRY_LIMIT) w2)))
           else
             (result1\<lparr>status := ''failed'', error := Some error_msg\<rparr>, add_failed w2)))"
  by pat_completeness auto
termination
  by (relation "measure (\<lambda>(env, name, rc, w). nat (RETRY_LIMIT - rc))") auto

declare process_single_video.simps [simp del]

subsection \<open>The batch\<close>



text \<open>\<^verbatim>\<open>VideoProcessor.__init__\<close>: an empty ledger stamped with the current time.\<close>

definition init_processor :: "string set \<Rightarrow> int \<Rightarrow> world" where
  "init_processor out now =
     \<lparr>out_files = out,
      log_data = \<lparr>start_time = now, end_time = None, total_videos = 0, successful = 0,
                   failed = 0, skipped = 0, results = []\<rparr>,
      clock = now, trace = [], console = [], saved_logs = []\<rparr>"










subsection \<open>Notions used to state the properties\<close>

text \<open>The line printed by a poll that neither completes nor fails.\<close>

definition progress_line :: "status_body \<Rightarrow> line" where
  "progress_line b =
     (if job_status b \<in> Some ` set in_progress_statuses
      then ProgressLine (case progress b of None \<Rightarrow> 0 | Some p \<Rightarrow> p) (job_status b)
      else StatusLine (job_status b))"

text \<open>\<open>n\<close> rounds of the polling loop, as events: a wait, then a status check.\<close>

definition poll_events :: "string \<Rightarrow> nat \<Rightarrow> event list" where
  "poll_events rid n = concat (replicate n [Sleep wait_interval, Poll rid])"

fun is_wait_or_poll :: "event \<Rightarrow> bool" where
  "is_wait_or_poll (Sleep n) = True"
| "is_wait_or_poll (Poll rid) = True"
| "is_wait_or_poll e = False"

text \<open>The number of jobs submitted, and the request identifiers polled, in a trace.\<close>

definition submissions :: "event list \<Rightarrow> nat" where
  "submissions es = length (filter (\<lambda>e. e = Submit) es)"



text \<open>The sum of the three counters of the ledger.\<close>

definition counted :: "world \<Rightarrow> int" where
  "counted w = successful (log_data w) + failed (log_data w) + skipped (log_data w)"





text \<open>The state in which the polling loop starts, after the job is created and uploaded.\<close>

definition after_upload :: "string \<Rightarrow> string \<Rightarrow> string \<Rightarrow> world \<Rightarrow> world" where
  "after_upload name rid url w =
     print_line UploadCompleteLine
       (emit (Upload name url)
          (print_line UploadingLine
             (print_line (JobCreatedLine rid)
                (emit Submit (print_line (ProcessingLine name) w)))))"

text \<open>
  The state in which a retry starts: the error is printed, the runner has slept for 5 time
  units, and meanwhile others may have written to the output folder.
\<close>

definition retry_world :: "attempt_env \<Rightarrow> string \<Rightarrow> int \<Rightarrow> exn \<Rightarrow> world \<Rightarrow> world" where
  "retry_world aenv name rc e w1 =
     others_write (backoff_writes aenv)
       (sleep 5 (print_line (RetryingLine (rc + 1) RETRY_LIMIT)
                   (print_line (ErrorLine name (error_text e)) w1)))"



subsection \<open>Example environments\<close>

definition ok_submit :: submit_body where
  "ok_submit = \<lparr>body_repr = ''{}'', requestId = Some ''req-1'', uploadUrls = [''https://up/1'']\<rparr>"

definition ok_body :: status_body where
  "ok_body = \<lparr>job_status = Some ''complete'', progress = Some 100,
               download_url = Some ''https://down/1'', job_error = None\<rparr>"

definition busy_body :: status_body where
  "busy_body = \<lparr>job_status = Some ''processing'', progress = Some 50,
                 download_url = None, job_error = None\<rparr>"

definition failed_body :: status_body where
  "failed_body = \<lparr>job_status = Some ''failed'', progress = None,
                   download_url = None, job_error = Some ''bad codec''\<rparr>"

text \<open>Every request succeeds and the first status check reports completion.\<close>

definition ok_env :: attempt_env where
  "ok_env =
     \<lparr>submit_reply = Response 200 ok_submit, upload_reply = Response 200 (),
      status_at = (\<lambda>t. Response 200 ok_body), download_reply = Response 200 (),
      rename_error = None, uuid4 = ''0f8a'', backoff_writes = []\<rparr>"

text \<open>The job never leaves \<^verbatim>\<open>processing\<close>; the job fails; requests are refused.\<close>

definition busy_env :: attempt_env where
  "busy_env = ok_env\<lparr>status_at := (\<lambda>t. Response 200 busy_body)\<rparr>"

definition failed_env :: attempt_env where
  "failed_env = ok_env\<lparr>status_at := (\<lambda>t. Response 200 failed_body)\<rparr>"

definition bad_submit_env :: attempt_env where
  "bad_submit_env =
     ok_env\<lparr>submit_reply := Response 500 \<lparr>body_repr = ''{}'', requestId = None, uploadUrls = []\<rparr>\<rparr>"

definition bad_upload_env :: attempt_env where
  "bad_upload_env = ok_env\<lparr>upload_reply := Response 500 ()\<rparr>"

definition bad_download_env :: attempt_env where
  "bad_download_env = ok_env\<lparr>download_reply := Response 404 ()\<rparr>"

text \<open>The upload is refused, and the output appears while the runner waits to retry.\<close>

definition late_output_env :: attempt_env where
  "late_output_env = bad_upload_env\<lparr>backoff_writes := [''a.mp4'']\<rparr>"


text \<open>The first submission is refused and the retry succeeds.\<close>

definition second_try_env :: file_env where
  "second_try_env = (\<lambda>rc. if rc = 0 then bad_submit_env else ok_env)"






section \<open>Properties\<close>

subsection \<open>Unfolding the runner\<close>

lemmas world_defs = print_line_def emit_def sleep_def others_write_def add_failed_def
  add_skipped_def add_successful_def

lemmas remote_defs = submit_video_job_def upload_video_def check_job_status_def
  download_result_def rename_file_def

lemma poll_loop_timeout:
  "\<not> elapsed < max_wait \<Longrightarrow>
     poll_loop env name rid result elapsed w = (Some (Timeout max_wait), result, w)"
  by (simp add: poll_loop.simps[of env name rid result elapsed w])

lemma poll_loop_step:
  "elapsed < max_wait \<Longrightarrow>
     poll_loop env name rid result elapsed w =
       (let w2 = emit (Poll rid) (sleep wait_interval w) in
        case status_at env (elapsed + wait_interval) of
          Raises m \<Rightarrow> (Some (TransportError m), result, w2)
        | Response code b \<Rightarrow>
            if code \<noteq> 200 then (Some (StatusCheckFailed code), result, w2)
            else if job_status b = Some ''complete'' then complete_branch env name b result w2
            else if job_status b = Some ''failed'' then
              (Some (JobFailed (case job_error b of None \<Rightarrow> ''Unknown error'' | Some m \<Rightarrow> m)),
               result, print_line (FullResponseLine b) w2)
            else poll_loop env name rid result (elapsed + wait_interval)
                   (print_line (progress_line b) w2))"
  by (subst poll_loop.simps)
     (simp add: check_job_status_def Let_def progress_line_def split: reply.splits)

lemma poll_loop_induct [case_names step]:
  assumes "\<And>elapsed w. (\<And>w'. elapsed < max_wait \<Longrightarrow> P (elapsed + wait_interval) w') \<Longrightarrow> P elapsed w"
  shows "P elapsed w"
proof (induction "nat (max_wait - elapsed)" arbitrary: elapsed w rule: less_induct)
  case less
  show ?case
  proof (rule assms)
    fix w' assume "elapsed < max_wait"
    then have "nat (max_wait - (elapsed + wait_interval)) < nat (max_wait - elapsed)"
      by (simp add: wait_interval_def)
    then show "P (elapsed + wait_interval) w'" by (rule less)
  qed
qed

text \<open>The five ways one round of the loop can go.\<close>

lemma poll_loop_cases [consumes 1, case_names timeout raises bad_status complete failed continue]:
  assumes run: "poll_loop env name rid result elapsed w = out"
    and "\<not> elapsed < max_wait \<Longrightarrow> out = (Some (Timeout max_wait), result, w) \<Longrightarrow> Q"
    and "\<And>m. elapsed < max_wait \<Longrightarrow> status_at env (elapsed + wait_interval) = Raises m \<Longrightarrow>
           out = (Some (TransportError m), result, emit (Poll rid) (sleep wait_interval w)) \<Longrightarrow> Q"
    and "\<And>code b. elapsed < max_wait \<Longrightarrow> status_at env (elapsed + wait_interval) = Response code b \<Longrightarrow>
           code \<noteq> 200 \<Longrightarrow>
           out = (Some (StatusCheckFailed code), result, emit (Poll rid) (sleep wait_interval w)) \<Longrightarrow> Q"
    and "\<And>b. elapsed < max_wait \<Longrightarrow> status_at env (elapsed + wait_interval) = Response 200 b \<Longrightarrow>
           job_status b = Some ''complete'' \<Longrightarrow>
           out = complete_branch env name b result (emit (Poll rid) (sleep wait_interval w)) \<Longrightarrow> Q"
    and "\<And>b. elapsed < max_wait \<Longrightarrow> status_at env (elapsed + wait_interval) = Response 200 b \<Longrightarrow>
           job_status b = Some ''failed'' \<Longrightarrow>
           out = (Some (JobFailed (case job_error b of None \<Rightarrow> ''Unknown error'' | Some m \<Rightarrow> m)),
                  result, print_line (FullResponseLine b) (emit (Poll rid) (sleep wait_interval w))) \<Longrightarrow> Q"
    and "\<And>b. elapsed < max_wait \<Longrightarrow> status_at env (elapsed + wait_interval) = Response 200 b \<Longrightarrow>
           job_status b \<noteq> Some ''complete'' \<Longrightarrow> job_status b \<noteq> Some ''failed'' \<Longrightarrow>
           out = poll_loop env name rid result (elapsed + wait_interval)
                   (print_line (progress_line b) (emit (Poll rid) (sleep wait_interval w))) \<Longrightarrow> Q"
  shows Q
proof (cases "elapsed < max_wait")
  case False
  with run assms(2) show ?thesis by (simp add: poll_loop_timeout)
next
  case True
  show ?thesis
  proof (cases "status_at env (elapsed + wait_interval)")
    case (Raises m)
    with run True assms(3) show ?thesis by (simp add: poll_loop_step Let_def)
  next
    case (Response code b)
    show ?thesis
    proof (cases "code = 200")
      case False
      with run True Response assms(4) show ?thesis by (simp add: poll_loop_step Let_def)
    next
      case c: True
      show ?thesis
      proof (cases "job_status b = Some ''complete''")
        case True
        with run \<open>elapsed < max_wait\<close> Response c assms(5) show ?thesis
          by (simp add: poll_loop_step Let_def)
      next
        case nc: False
        show ?thesis
        proof (cases "job_status b = Some ''failed''")
          case True
          with run \<open>elapsed < max_wait\<close> Response c nc assms(6) show ?thesis
            by (simp add: poll_loop_step Let_def)
        next
          case False
          with run \<open>elapsed < max_wait\<close> Response c nc assms(7) show ?thesis
            by (simp add: poll_loop_step Let_def)
        qed
      qed
    qed
  qed
qed






lemma psv_return:
  "try_block (env rc) name (new_result name rc w) w = (None, r1, w1) \<Longrightarrow>
     process_single_video env name rc w = (r1, w1)"
  by (simp add: process_single_video.simps[of env name rc w])

lemma psv_retry:
  "try_block (env rc) name (new_result name rc w) w = (Some e, r1, w1) \<Longrightarrow> rc < RETRY_LIMIT \<Longrightarrow>
     process_single_video env name rc w =
       process_single_video env name (rc + 1) (retry_world (env rc) name rc e w1)"
  by (simp add: process_single_video.simps[of env name rc w] retry_world_def)




lemma retry_world_frame:
  "log_data (retry_world aenv name rc e w1) = log_data w1"
  "saved_logs (retry_world aenv name rc e w1) = saved_logs w1"
  "trace (retry_world aenv name rc e w1) = trace w1 @ [Sleep 5]"
  "clock (retry_world aenv name rc e w1) = clock w1 + 5"
  "out_files (retry_world aenv name rc e w1) = out_files w1 \<union> set (backoff_writes aenv)"
  "counted (retry_world aenv name rc e w1) = counted w1"
  by (simp_all add: retry_world_def world_defs counted_def)


subsection \<open>The events of the polling loop\<close>

lemma poll_events_Suc: "poll_events rid (Suc n) = Sleep wait_interval # Poll rid # poll_events rid n"
  by (simp add: poll_events_def)

lemma poll_events_0: "poll_events rid 0 = []"
  by (simp add: poll_events_def)

lemma complete_branch_trace:
  assumes "complete_branch env name b result w = (x, r', w')"
  shows "clock w' = clock w \<and>
         (\<exists>tail. trace w' = trace w @ tail \<and>
            (case x of
               None \<Rightarrow> \<exists>u. tail = [Download u (uuid4 env @ ''.mp4''), Renamed (uuid4 env @ ''.mp4'') name]
             | Some e \<Rightarrow> tail = [] \<or> (\<exists>u. tail = [Download u (uuid4 env @ ''.mp4'')])))"
  using assms
  by (auto simp: complete_branch_def world_defs remote_defs Let_def
           split: option.splits if_splits reply.splits sum.splits bool.splits prod.splits)

lemma poll_loop_trace:
  "poll_loop env name rid result elapsed w = (x, r', w') \<Longrightarrow>
     \<exists>n tail. trace w' = trace w @ poll_events rid n @ tail \<and>
        clock w' = clock w + wait_interval * int n \<and>
        (n = 0 \<or> elapsed + wait_interval * int n < max_wait + wait_interval) \<and>
        (case x of
           None \<Rightarrow> \<exists>u. tail = [Download u (uuid4 env @ ''.mp4''), Renamed (uuid4 env @ ''.mp4'') name]
         | Some e \<Rightarrow> tail = [] \<or> (\<exists>u. tail = [Download u (uuid4 env @ ''.mp4'')]))"
proof (induction elapsed w arbitrary: rule: poll_loop_induct)
  case (step elapsed w)
  let ?w2 = "emit (Poll rid) (sleep wait_interval w)"
  have w2: "trace ?w2 = trace w @ poll_events rid 1" "clock ?w2 = clock w + wait_interval * int 1"
    by (simp_all add: world_defs poll_events_def)
  from step.prems show ?case
  proof (cases rule: poll_loop_cases)
    case timeout
    then have "trace w' = trace w @ poll_events rid 0 @ []" "x = Some (Timeout max_wait)" "w' = w"
      by (simp_all add: poll_events_0)
    then show ?thesis by (intro exI[of _ 0] exI[of _ "[]"]) simp
  next
    case (raises m)
    with w2 show ?thesis
      by (intro exI[of _ 1] exI[of _ "[]"]) (simp add: wait_interval_def)
  next
    case (bad_status code b)
    with w2 show ?thesis
      by (intro exI[of _ 1] exI[of _ "[]"]) (simp add: wait_interval_def)
  next
    case (complete b)
    from complete_branch_trace[OF complete(4)[symmetric]] obtain tail where
      "clock w' = clock ?w2" "trace w' = trace ?w2 @ tail"
      "case x of
         None \<Rightarrow> \<exists>u. tail = [Download u (uuid4 env @ ''.mp4''), Renamed (uuid4 env @ ''.mp4'') name]
       | Some e \<Rightarrow> tail = [] \<or> (\<exists>u. tail = [Download u (uuid4 env @ ''.mp4'')])"
      by blast
    with w2 complete(1) show ?thesis
      by (intro exI[of _ 1] exI[of _ tail]) (simp add: wait_interval_def)
  next
    case (failed b)
    with w2 show ?thesis
      by (intro exI[of _ 1] exI[of _ "[]"]) (simp add: wait_interval_def print_line_def)
  next
    case (continue b)
    let ?w3 = "print_line (progress_line b) ?w2"
    from step.IH[OF continue(1) continue(5)[symmetric]] obtain n tail where
      *: "trace w' = trace ?w3 @ poll_events rid n @ tail"
      "clock w' = clock ?w3 + wait_interval * int n"
      "n = 0 \<or> elapsed + wait_interval + wait_interval * int n < max_wait + wait_interval"
      "case x of
         None \<Rightarrow> \<exists>u. tail = [Download u (uuid4 env @ ''.mp4''), Renamed (uuid4 env @ ''.mp4'') name]
       | Some e \<Rightarrow> tail = [] \<or> (\<exists>u. tail = [Download u (uuid4 env @ ''.mp4'')])"
      by blast
    have "trace ?w3 = trace w @ [Sleep wait_interval, Poll rid]" "clock ?w3 = clock w + wait_interval"
      by (simp_all add: world_defs)
    with * continue(1) show ?thesis
      by (intro exI[of _ "Suc n"] exI[of _ tail])
         (auto simp: poll_events_Suc wait_interval_def algebra_simps)
  qed
qed

lemmas example_defs = ok_submit_def ok_body_def busy_body_def failed_body_def ok_env_def
  busy_env_def failed_env_def bad_submit_env_def bad_upload_env_def bad_download_env_def
  late_output_env_def second_try_env_def

subsection \<open>Polling without a terminal status\<close>

lemma after_upload_frame:
  "trace (after_upload name rid url w) = trace w @ [Submit, Upload name url]"
  "clock (after_upload name rid url w) = clock w"
  "out_files (after_upload name rid url w) = out_files w"
  "log_data (after_upload name rid url w) = log_data w"
  "saved_logs (after_upload name rid url w) = saved_logs w"
  by (simp_all add: after_upload_def world_defs)

lemma poll_loop_busy:
  assumes busy: "\<And>k. 1 \<le> k \<Longrightarrow> k \<le> (360::nat) \<Longrightarrow>
      \<exists>b. status_at env (wait_interval * int k) = Response 200 b \<and>
          job_status b \<noteq> Some ''complete'' \<and> job_status b \<noteq> Some ''failed''"
  shows "k \<le> 360 \<Longrightarrow> elapsed = max_wait - wait_interval * int k \<Longrightarrow>
     \<exists>w'. poll_loop env name rid result elapsed w = (Some (Timeout max_wait), result, w') \<and>
          trace w' = trace w @ poll_events rid k \<and> clock w' = clock w + wait_interval * int k \<and>
          out_files w' = out_files w \<and> log_data w' = log_data w \<and> saved_logs w' = saved_logs w"
proof (induction k arbitrary: elapsed w)
  case 0
  then show ?case by (simp add: poll_loop_timeout poll_events_0)
next
  case (Suc k)
  let ?j = "360 - k"
  have lt: "elapsed < max_wait" using Suc.prems by (simp add: wait_interval_def)
  have j: "1 \<le> ?j" "?j \<le> 360" using Suc.prems by simp_all
  have t: "elapsed + wait_interval = wait_interval * int ?j"
    using Suc.prems by (simp add: max_wait_def wait_interval_def)
  from busy[OF j] t obtain b where b: "status_at env (elapsed + wait_interval) = Response 200 b"
    "job_status b \<noteq> Some ''complete''" "job_status b \<noteq> Some ''failed''"
    by auto
  let ?w3 = "print_line (progress_line b) (emit (Poll rid) (sleep wait_interval w))"
  have step: "poll_loop env name rid result elapsed w =
                poll_loop env name rid result (elapsed + wait_interval) ?w3"
    using lt b by (simp add: poll_loop_step Let_def)
  have "k \<le> 360" "elapsed + wait_interval = max_wait - wait_interval * int k"
    using Suc.prems by (simp_all add: algebra_simps)
  from Suc.IH[OF this, of ?w3] obtain w' where
    "poll_loop env name rid result (elapsed + wait_interval) ?w3 = (Some (Timeout max_wait), result, w')"
    "trace w' = trace ?w3 @ poll_events rid k" "clock w' = clock ?w3 + wait_interval * int k"
    "out_files w' = out_files ?w3" "log_data w' = log_data ?w3" "saved_logs w' = saved_logs ?w3"
    by blast
  with step show ?case
    by (simp add: world_defs poll_events_Suc algebra_simps)
qed

lemma show_int_3600: "show_int 3600 = ''3600''"
  by (simp add: show_int_def show_nat.simps digit_char_def)

lemma poll_loop_bound:
  assumes "poll_loop env name rid result 0 w = (x, r', w')"
  shows "\<exists>n tail. n \<le> 360 \<and> trace w' = trace w @ poll_events rid n @ tail \<and>
           filter is_wait_or_poll tail = [] \<and> clock w' = clock w + wait_interval * int n"
proof -
  from poll_loop_trace[OF assms] obtain n tail where
    *: "trace w' = trace w @ poll_events rid n @ tail"
       "clock w' = clock w + wait_interval * int n"
       "n = 0 \<or> 0 + wait_interval * int n < max_wait + wait_interval"
       "case x of
           None \<Rightarrow> \<exists>u. tail = [Download u (uuid4 env @ ''.mp4''), Renamed (uuid4 env @ ''.mp4'') name]
         | Some e \<Rightarrow> tail = [] \<or> (\<exists>u. tail = [Download u (uuid4 env @ ''.mp4'')])"
    by blast
  from *(3) have "n \<le> 360" by (auto simp: max_wait_def wait_interval_def)
  moreover from *(4) have "filter is_wait_or_poll tail = []"
    by (auto split: option.splits)
  ultimately show ?thesis using *(1,2) by blast
qed

subsection \<open>Submissions and polls in the trace of an attempt\<close>






subsection \<open>A run evaluated\<close>




subsection \<open>A success follows a rename\<close>


subsection \<open>The progress values reach the console only\<close>










subsection \<open>The batch: tasks, gathered results, ledger\<close>















subsection \<open>Three batches evaluated\<close>





section \<open>The claims\<close>

subsection \<open>C5: an existing output is skipped without any remote call\<close>



subsection \<open>C10: the skip check is made again at every retry\<close>

text \<open>
  C10. If an attempt fails while retries remain, and the output exists when the back-off
  sleep is over (it was there after the failed attempt, or somebody wrote it during the
  sleep), then the retry ends as \<^verbatim>\<open>skipped\<close>: its record carries the retry count of
  the retry (one more than the failed attempt's), no request identifier, and the trace
  ends with the back-off sleep, so no new job is submitted.
\<close>

theorem retry_rechecks_output:
  assumes "try_block (env rc) name (new_result name rc w) w = (Some e, r1, w1)"
    and "rc < RETRY_LIMIT"
    and "name \<in> out_files w1 \<union> set (backoff_writes (env rc))"
  shows "process_single_video env name rc w =
           (\<lparr>filename = name, status = ''skipped'', request_id = None,
             error = Some ''Already processed'', retry_count = Some (rc + 1),
             timestamp = clock w1 + 5\<rparr>,
            print_line (SkippedLine name) (add_skipped (retry_world (env rc) name rc e w1))) \<and>
         trace (snd (process_single_video env name rc w)) = trace w1 @ [Sleep 5] \<and>
         submissions (trace (snd (process_single_video env name rc w))) = submissions (trace w1)"
proof -
  let ?wr = "retry_world (env rc) name rc e w1"
  from assms(3) have "is_already_processed name ?wr"
    by (simp add: is_already_processed_def retry_world_frame)
  then have "try_block (env (rc + 1)) name (new_result name (rc + 1) ?wr) ?wr =
          (None, (new_result name (rc + 1) ?wr)\<lparr>status := ''skipped'', error := Some ''Already processed''\<rparr>,
           print_line (SkippedLine name) (add_skipped ?wr))"
    by (simp add: try_block_def)
  from psv_return[where env=env and rc="rc + 1", OF this]
       psv_retry[where env=env and rc=rc, OF assms(1,2)]
  show ?thesis
    by (simp add: new_result_def retry_world_frame world_defs submissions_def)
qed

theorem retry_rechecks_output_witness:
  "fst (try_block late_output_env ''a.mp4'' (new_result ''a.mp4'' 0 (init_processor {} 0))
          (init_processor {} 0)) = Some UploadFailed \<and>
   (0::int) < RETRY_LIMIT \<and>
   ''a.mp4'' \<in> set (backoff_writes late_output_env) \<and>
   status (fst (process_single_video (\<lambda>rc. late_output_env) ''a.mp4'' 0 (init_processor {} 0)))
     = ''skipped'' \<and>
   retry_count (fst (process_single_video (\<lambda>rc. late_output_env) ''a.mp4'' 0 (init_processor {} 0)))
     = Some 1 \<and>
   submissions (trace (snd (process_single_video (\<lambda>rc. late_output_env) ''a.mp4'' 0
     (init_processor {} 0)))) = 1"
proof -
  let ?w = "init_processor {} 0"
  obtain x r1 w1 where tb: "try_block late_output_env ''a.mp4'' (new_result ''a.mp4'' 0 ?w) ?w = (x, r1, w1)"
    by (cases "try_block late_output_env ''a.mp4'' (new_result ''a.mp4'' 0 ?w) ?w") auto
  then have x: "x = Some UploadFailed" and w1: "trace w1 = [Submit, Upload ''a.mp4'' ''https://up/1'']"
    by (auto simp: try_block_def example_defs remote_defs world_defs init_processor_def
        is_already_processed_def Let_def)
  have lim: "(0::int) < RETRY_LIMIT" by (simp add: RETRY_LIMIT_def)
  have mem: "''a.mp4'' \<in> out_files w1 \<union> set (backoff_writes late_output_env)"
    by (simp add: example_defs)
  have mem2: "''a.mp4'' \<in> set (backoff_writes late_output_env)"
    by (simp add: example_defs)
  from retry_rechecks_output[where env="\<lambda>rc. late_output_env" and rc=0, OF tb[unfolded x] lim mem]
    tb x w1 lim mem2
  show ?thesis
    by (simp add: submissions_def retry_world_frame world_defs)
qed

subsection \<open>C2: the retry policy\<close>




subsection \<open>C3: the polling loop is bounded and times out\<close>

text \<open>
  C3. The polling loop, started at elapsed time 0, performs \<open>n \<le> 360\<close> rounds, each a
  sleep of 10 time units followed by one status check, so it waits \<open>10 * n \<le> 3600\<close> time
  units; what it does after the last round contains neither a sleep nor a status check.
  If the job was submitted and uploaded and each of the 360 status checks answers with a
  status other than \<^verbatim>\<open>complete\<close> and \<^verbatim>\<open>failed\<close>, the attempt raises the exception
  \<^verbatim>\<open>Timeout after 3600s\<close> inside the \<^verbatim>\<open>try\<close> block (so the handler applies the retry
  policy to it); the trace of the attempt is the submission, the upload and 360 rounds,
  with no download and no rename, and the output folder and the ledger are unchanged.
\<close>

theorem polling_times_out:
  "(\<exists>n tail. n \<le> 360 \<and>
       trace (snd (snd (poll_loop env name rid result 0 w))) = trace w @ poll_events rid n @ tail \<and>
       filter is_wait_or_poll tail = [] \<and>
       clock (snd (snd (poll_loop env name rid result 0 w))) = clock w + wait_interval * int n) \<and>
   (\<not> is_already_processed name w \<and>
    submit_reply env = Response 200 sb \<and> requestId sb = Some rid \<and> rid \<noteq> [] \<and>
    uploadUrls sb = url # urls \<and> upload_reply env = Response c () \<and> c \<in> {200, 201, 204} \<and>
    (\<forall>k. 1 \<le> k \<and> k \<le> (360::nat) \<longrightarrow>
       (\<exists>b. status_at env (wait_interval * int k) = Response 200 b \<and>
          job_status b \<noteq> Some ''complete'' \<and> job_status b \<noteq> Some ''failed''))
    \<longrightarrow>
    (\<exists>w'. try_block env name result0 w =
             (Some (Timeout max_wait), result0\<lparr>request_id := Some rid\<rparr>, w') \<and>
          error_text (Timeout max_wait) = ''Timeout after 3600s'' \<and>
          trace w' = trace w @ [Submit, Upload name url] @ poll_events rid 360 \<and>
          clock w' = clock w + 3600 \<and>
          out_files w' = out_files w \<and> log_data w' = log_data w))"
proof (intro conjI impI)
  obtain x r' w' where "poll_loop env name rid result 0 w = (x, r', w')"
    by (cases "poll_loop env name rid result 0 w") auto
  from poll_loop_bound[OF this] this
  show "\<exists>n tail. n \<le> 360 \<and>
       trace (snd (snd (poll_loop env name rid result 0 w))) = trace w @ poll_events rid n @ tail \<and>
       filter is_wait_or_poll tail = [] \<and>
       clock (snd (snd (poll_loop env name rid result 0 w))) = clock w + wait_interval * int n"
    by simp
next
  assume h: "\<not> is_already_processed name w \<and>
    submit_reply env = Response 200 sb \<and> requestId sb = Some rid \<and> rid \<noteq> [] \<and>
    uploadUrls sb = url # urls \<and> upload_reply env = Response c () \<and> c \<in> {200, 201, 204} \<and>
    (\<forall>k. 1 \<le> k \<and> k \<le> (360::nat) \<longrightarrow>
       (\<exists>b. status_at env (wait_interval * int k) = Response 200 b \<and>
          job_status b \<noteq> Some ''complete'' \<and> job_status b \<noteq> Some ''failed''))"
  then have tb: "try_block env name result0 w =
      poll_loop env name rid (result0\<lparr>request_id := Some rid\<rparr>) 0 (after_upload name rid url w)"
    by (auto simp: try_block_def submit_video_job_def upload_video_def Let_def after_upload_def)
  have "0 = max_wait - wait_interval * int 360" by (simp add: max_wait_def wait_interval_def)
  from poll_loop_busy[where env=env and k=360, OF _ _ this] h
  obtain w' where
    "poll_loop env name rid (result0\<lparr>request_id := Some rid\<rparr>) 0 (after_upload name rid url w)
       = (Some (Timeout max_wait), result0\<lparr>request_id := Some rid\<rparr>, w')"
    "trace w' = trace (after_upload name rid url w) @ poll_events rid 360"
    "clock w' = clock (after_upload name rid url w) + wait_interval * int 360"
    "out_files w' = out_files (after_upload name rid url w)"
    "log_data w' = log_data (after_upload name rid url w)"
    by blast
  with tb show "\<exists>w'. try_block env name result0 w =
             (Some (Timeout max_wait), result0\<lparr>request_id := Some rid\<rparr>, w') \<and>
          error_text (Timeout max_wait) = ''Timeout after 3600s'' \<and>
          trace w' = trace w @ [Submit, Upload name url] @ poll_events rid 360 \<and>
          clock w' = clock w + 3600 \<and>
          out_files w' = out_files w \<and> log_data w' = log_data w"
    by (simp add: after_upload_frame show_int_3600 max_wait_def wait_interval_def)
qed

theorem polling_times_out_witness:
  "\<not> is_already_processed ''a.mp4'' (init_processor {} 0) \<and>
   submit_reply busy_env = Response 200 ok_submit \<and>
   requestId ok_submit = Some ''req-1'' \<and>
   uploadUrls ok_submit = [''https://up/1''] \<and>
   upload_reply busy_env = Response 200 () \<and>
   (\<forall>t. status_at busy_env t = Response 200 busy_body) \<and>
   job_status busy_body = Some ''processing'' \<and>
   fst (try_block busy_env ''a.mp4'' (new_result ''a.mp4'' 0 (init_processor {} 0))
          (init_processor {} 0)) = Some (Timeout max_wait) \<and>
   out_files (snd (snd (try_block busy_env ''a.mp4'' (new_result ''a.mp4'' 0 (init_processor {} 0))
          (init_processor {} 0)))) = {} \<and>
   trace (snd (snd (try_block busy_env ''a.mp4'' (new_result ''a.mp4'' 0 (init_processor {} 0))
          (init_processor {} 0)))) = [Submit, Upload ''a.mp4'' ''https://up/1''] @ poll_events ''req-1'' 360 \<and>
   clock (snd (snd (try_block busy_env ''a.mp4'' (new_result ''a.mp4'' 0 (init_processor {} 0))
          (init_processor {} 0)))) = 3600"
proof -
  let ?w = "init_processor {} 0"
  have h: "\<not> is_already_processed ''a.mp4'' ?w" "submit_reply busy_env = Response 200 ok_submit"
    "requestId ok_submit = Some ''req-1''" "''req-1'' \<noteq> []" "uploadUrls ok_submit = [''https://up/1'']"
    "upload_reply busy_env = Response 200 ()" "(200::int) \<in> {200, 201, 204}"
    "\<forall>t. status_at busy_env t = Response 200 busy_body"
    "job_status busy_body = Some ''processing''"
    by (simp_all add: example_defs is_already_processed_def init_processor_def)
  then have busy: "\<forall>k. 1 \<le> k \<and> k \<le> (360::nat) \<longrightarrow>
       (\<exists>b. status_at busy_env (wait_interval * int k) = Response 200 b \<and>
          job_status b \<noteq> Some ''complete'' \<and> job_status b \<noteq> Some ''failed'')"
    by simp
  from polling_times_out[of busy_env "''a.mp4''" "''req-1''" _ ?w ok_submit "''https://up/1''" "[]" 200
      "new_result ''a.mp4'' 0 ?w"] h(1-7) busy
  obtain w' where "try_block busy_env ''a.mp4'' (new_result ''a.mp4'' 0 ?w) ?w =
             (Some (Timeout max_wait), (new_result ''a.mp4'' 0 ?w)\<lparr>request_id := Some ''req-1''\<rparr>, w')"
     "trace w' = trace ?w @ [Submit, Upload ''a.mp4'' ''https://up/1''] @ poll_events ''req-1'' 360"
     "clock w' = clock ?w + 3600" "out_files w' = out_files ?w"
    by blast
  with h show ?thesis by (simp add: init_processor_def)
qed

subsection \<open>C4: on completion, download to a temporary file, then rename\<close>



subsection \<open>C9: the progress value is advisory\<close>


subsection \<open>C1: one record per file, and the counters add up\<close>



subsection \<open>C6: an escaped exception becomes a failed record\<close>




subsection \<open>C7: the ledger is written once, at the end\<close>




end
